theory Spec2Isabelle
  imports Main
begin

section \<open>The barcode scanner module (src/js/modules/scanner/barcode-scanner.js)\<close>

text \<open>
  The module is a closure over a handful of mutable variables (\<open>activeStream\<close>,
  \<open>isScanning\<close>, \<open>lastResult\<close>, \<open>countResults\<close>, \<open>lastCodeFound\<close>, \<open>config\<close>) and the DOM
  elements it writes to. The embedding passes all of them around as one record and adds what
  the module does to its host: the calls it makes (\<open>calls\<close>), the lines it prints
  (\<open>console\<close>) and the camera streams the host has handed out (\<open>streams\<close>).

  Timestamps are the integers \<open>Date.now()\<close> returns and \<open>countResults\<close> counts frames; both stay
  far below \<open>2^53\<close>, where JavaScript numbers are exact, so they are \<open>int\<close> and \<open>nat\<close> here.

  Modelling assumptions, all about the host and none about the module's own logic:
  everything but \<open>init\<close> and \<open>start\<close> is modelled for a module that has been through \<open>init\<close>
  on a page with the elements the module looks up (\<open>init\<close> checks for three of them only,
  the others are dereferenced unguarded, and no tick is scheduled before \<open>init\<close>); \<open>start\<close>,
  which can be called before \<open>init\<close>, is told which of the elements it touches are there,
  and throws at the others. The global \<open>app\<close> object is declared,
  \<open>beepSound.play()\<close> returns a promise, and the hooks \<open>window.selectProduct\<close>,
  \<open>app.notify\<close> and \<open>app.formatMoney\<close> return normally. Pixels drawn on the canvas are not
  part of the state.
\<close>

subsection \<open>Configuration\<close>

record config =
  scanInterval :: int
  scanTimeout :: int
  autostart :: bool
  beepOnSuccess :: bool
  vibrateOnSuccess :: bool
  codeValidTimeout :: int
  cameraFacingMode :: string
  selectByCode :: bool

definition default_config :: config where
  "default_config =
     \<lparr> scanInterval = 100, scanTimeout = 5000, autostart = True, beepOnSuccess = True,
       vibrateOnSuccess = True, codeValidTimeout = 2000,
       cameraFacingMode = ''environment'', selectByCode = True \<rparr>"

text \<open>The \<open>options\<close> object of \<open>init\<close>: every key may be missing.\<close>

record options =
  opt_scanInterval :: "int option"
  opt_scanTimeout :: "int option"
  opt_autostart :: "bool option"
  opt_beepOnSuccess :: "bool option"
  opt_vibrateOnSuccess :: "bool option"
  opt_codeValidTimeout :: "int option"
  opt_cameraFacingMode :: "string option"
  opt_selectByCode :: "bool option"

definition or_else :: "'a option \<Rightarrow> 'a \<Rightarrow> 'a" where
  "or_else x d = (case x of None \<Rightarrow> d | Some v \<Rightarrow> v)"

text \<open>\<open>Object.assign(config, options)\<close>.\<close>

definition assign :: "config \<Rightarrow> options \<Rightarrow> config" where
  "assign c opts =
     \<lparr> scanInterval = or_else (opt_scanInterval opts) (scanInterval c),
       scanTimeout = or_else (opt_scanTimeout opts) (scanTimeout c),
       autostart = or_else (opt_autostart opts) (autostart c),
       beepOnSuccess = or_else (opt_beepOnSuccess opts) (beepOnSuccess c),
       vibrateOnSuccess = or_else (opt_vibrateOnSuccess opts) (vibrateOnSuccess c),
       codeValidTimeout = or_else (opt_codeValidTimeout opts) (codeValidTimeout c),
       cameraFacingMode = or_else (opt_cameraFacingMode opts) (cameraFacingMode c),
       selectByCode = or_else (opt_selectByCode opts) (selectByCode c) \<rparr>"

subsection \<open>What the module shows, calls and prints\<close>

text \<open>
  The texts the module writes into \<open>loadingMessage\<close> and \<open>outputMessage\<close>. \<open>PageText\<close> is
  whatever the page came with; \<open>Starting\<close> is "Iniciando camera...", \<open>CameraError m\<close> is
  "Erro ao acessar camera: m", \<open>Searching\<close> is "Buscando produto...", \<open>NotFound c\<close> is
  "Produto nao encontrado: c" and \<open>Unsupported\<close> is the no-camera-support text of \<open>init\<close>.
\<close>

datatype message =
  PageText | NoText | Starting | CameraError string | Searching | NotFound string | Unsupported

datatype display = PageStyle | Block | DisplayNone

text \<open>A parsed response body, as far as the module looks at it: its truthiness.\<close>

datatype json = JNull | JBool bool | JNum int | JStr string | JObj "(string \<times> string) list"

fun truthy :: "json \<Rightarrow> bool" where
  "truthy JNull = False"
| "truthy (JBool b) = b"
| "truthy (JNum n) = (n \<noteq> 0)"
| "truthy (JStr s) = (s \<noteq> [])"
| "truthy (JObj _) = True"

text \<open>
  What \<open>fetch\<close> settles with: a rejection, or a response with its status and its body
  (\<open>None\<close> when \<open>response.json()\<close> rejects).
\<close>

datatype response = NetworkError | Http nat "json option"

definition response_ok :: "nat \<Rightarrow> bool" where
  "response_ok status = (200 \<le> status \<and> status \<le> 299)"

text \<open>Calls into the host, in the order the module makes them.\<close>

datatype call =
    GetUserMedia string
  | PlayVideo nat
  | RequestFrame
  | SetTimeoutFrame int
  | StopTracks nat
  | Beep
  | Vibrate int
  | Fetch string
  | SelectProduct json
  | Notify string

text \<open>The module's console lines.\<close>

datatype line =
    Initialising | ElementsMissing | NoCameraSupport
  | ScannerStarted | StartFailed string | ScannerStopped | ScannerTimeout
  | TickDecodeError | DecodeError | CodeFound string | LookupError

text \<open>What the decode step meets on the current frame: \<open>jsQR\<close> returns null, returns a code, or
  something inside the \<open>try\<close> of \<open>decodeBarcode\<close> throws before a code is in hand.\<close>

datatype decoded = NoCode | Code string | Failure

text \<open>What one run of \<open>tick\<close> reads from its host: \<open>Date.now()\<close> at the watchdog, whether the
  video has \<open>HAVE_ENOUGH_DATA\<close>, the decode outcome, and \<open>Date.now()\<close> inside \<open>processCode\<close>.\<close>

record frame =
  clock :: int
  video_ready :: bool
  decode :: decoded
  clock_code :: int

subsection \<open>The state\<close>

record scanner =
  activeStream :: "nat option"
  isScanning :: bool
  lastResult :: string
  countResults :: nat
  lastCodeFound :: int
  config :: config
  streams :: "bool list"
  nav_vibrate :: bool
  has_selectProduct :: bool
  has_notify :: bool
  has_productInfo :: bool
  loadingMessage_innerText :: message
  loadingMessage_hidden :: bool
  outputMessage_innerText :: message
  outputMessage_hidden :: bool
  outputData_innerText :: string
  outputData_parent_hidden :: bool
  canvasElement_hidden :: bool
  container_display :: display
  productInfo_card :: "json option"
  productInfo_display :: display
  calls :: "call list"
  console :: "line list"

text \<open>
  \<open>streams s ! i\<close> tells whether the tracks of the \<open>i\<close>-th stream the host handed out are
  still running. The module's variables as the script leaves them when it is loaded at time
  \<open>t0\<close>, on a host with the given capabilities:
\<close>

definition module_state :: "int \<Rightarrow> bool \<Rightarrow> bool \<Rightarrow> bool \<Rightarrow> bool \<Rightarrow> scanner" where
  "module_state t0 vib sel noti info =
     \<lparr> activeStream = None, isScanning = False, lastResult = [], countResults = 0,
       lastCodeFound = t0, config = default_config, streams = [],
       nav_vibrate = vib, has_selectProduct = sel, has_notify = noti, has_productInfo = info,
       loadingMessage_innerText = PageText, loadingMessage_hidden = False,
       outputMessage_innerText = PageText, outputMessage_hidden = False,
       outputData_innerText = [], outputData_parent_hidden = False,
       canvasElement_hidden = False, container_display = PageStyle,
       productInfo_card = None, productInfo_display = PageStyle,
       calls = [], console = [] \<rparr>"

definition call :: "call \<Rightarrow> scanner \<Rightarrow> scanner" where
  "call c s = s\<lparr>calls := calls s @ [c]\<rparr>"

definition print :: "line \<Rightarrow> scanner \<Rightarrow> scanner" where
  "print l s = s\<lparr>console := console s @ [l]\<rparr>"

text \<open>The public accessors \<open>getLastCode\<close> and \<open>isActive\<close>.\<close>

definition getLastCode :: "scanner \<Rightarrow> string" where
  "getLastCode s = lastResult s"

definition isActive :: "scanner \<Rightarrow> bool" where
  "isActive s = isScanning s"

text \<open>The streams whose tracks are running, and the confirmed codes a console shows.\<close>

fun live_from :: "nat \<Rightarrow> bool list \<Rightarrow> nat list" where
  "live_from i [] = []"
| "live_from i (b # bs) = (if b then [i] else []) @ live_from (Suc i) bs"

definition live_streams :: "scanner \<Rightarrow> nat list" where
  "live_streams s = live_from 0 (streams s)"

fun confirmed :: "line list \<Rightarrow> string list" where
  "confirmed [] = []"
| "confirmed (CodeFound c # ls) = c # confirmed ls"
| "confirmed (_ # ls) = confirmed ls"

fun lookups :: "call list \<Rightarrow> string list" where
  "lookups [] = []"
| "lookups (Fetch c # cs) = c # lookups cs"
| "lookups (_ # cs) = lookups cs"

subsection \<open>stop\<close>

text \<open>
  \<open>stop\<close> clears the flag, stops the tracks of the stream it holds (and only of that one),
  forgets it and hides the scanner.
\<close>

definition release :: "scanner \<Rightarrow> scanner" where
  "release s =
     (case activeStream s of
        None \<Rightarrow> s
      | Some i \<Rightarrow> (call (StopTracks i) s)\<lparr>streams := (streams s)[i := False], activeStream := None\<rparr>)"

definition stop :: "scanner \<Rightarrow> scanner" where
  "stop s =
     print ScannerStopped ((release (s\<lparr>isScanning := False\<rparr>))\<lparr>container_display := DisplayNone\<rparr>)"

subsection \<open>start\<close>

text \<open>
  \<open>start\<close> is an async function. \<open>start_call\<close> is what runs when it is called, up to the
  \<open>await\<close> of \<open>getUserMedia\<close>: the two assignments before the \<open>try\<close> and the request itself.
  There is no test of \<open>isScanning\<close> or \<open>activeStream\<close> before them.
\<close>

definition start_call :: "scanner \<Rightarrow> scanner" where
  "start_call s =
     call (GetUserMedia (cameraFacingMode (config s))) (s\<lparr>isScanning := True, lastResult := []\<rparr>)"

text \<open>The rest of the \<open>try\<close> block, run when the host grants a stream: the new stream is the
  next one of \<open>streams\<close>, and it replaces whatever \<open>activeStream\<close> held.\<close>

definition start_granted :: "scanner \<Rightarrow> scanner" where
  "start_granted s =
     (let i = length (streams s);
          s1 = s\<lparr>streams := streams s @ [True], activeStream := Some i\<rparr>;
          s2 = call RequestFrame (call (PlayVideo i) s1);
          s3 = s2\<lparr>loadingMessage_innerText := Starting, container_display := Block\<rparr>
      in print ScannerStarted s3)"

text \<open>The \<open>catch\<close> block, run when \<open>getUserMedia\<close> rejects with an error of message \<open>m\<close>.\<close>

definition start_denied :: "string \<Rightarrow> scanner \<Rightarrow> scanner" where
  "start_denied m s =
     (print (StartFailed m) s)\<lparr>outputMessage_innerText := CameraError m,
                                loadingMessage_innerText := NoText\<rparr>"

text \<open>
  \<open>start_granted\<close> and \<open>start_denied\<close> are the two blocks on a page that has been through
  \<open>init\<close> and has every element, where no line of them throws. In general the blocks
  dereference three of the module's element variables, \<open>video\<close>, \<open>loadingMessage\<close> and
  \<open>outputMessage\<close>, which are null until \<open>init\<close> binds them (and \<open>outputMessage\<close> stays null
  on a page without that element, which \<open>init\<close> does not check), and the page's
  \<open>scanner-container\<close>. \<open>elements\<close> says which of them are there when \<open>start()\<close> runs.
\<close>

record elements =
  video_set :: bool
  loadingMessage_set :: bool
  outputMessage_set :: bool
  container_found :: bool

definition on_page :: elements where
  "on_page = \<lparr> video_set = True, loadingMessage_set = True, outputMessage_set = True,
                container_found = True \<rparr>"

definition before_init :: elements where
  "before_init = \<lparr> video_set = False, loadingMessage_set = False, outputMessage_set = False,
                    container_found = True \<rparr>"

text \<open>
  What can be thrown inside \<open>start\<close>: the error \<open>getUserMedia\<close> rejects with, or the
  \<open>TypeError\<close> of a property access on null. \<open>message_of\<close> is the \<open>err.message\<close> the \<open>catch\<close>
  block prints and shows; the text of a \<open>TypeError\<close> is the engine's own.
\<close>

datatype acquisition = Granted | Denied string

datatype thrown = AcquisitionError string | NullDeref

datatype settled = Fulfilled | Rejected thrown

fun message_of :: "thrown \<Rightarrow> string" where
  "message_of (AcquisitionError m) = m"
| "message_of NullDeref = ''TypeError''"

text \<open>
  The \<open>try\<close> block after the \<open>await\<close>, line by line; \<open>Inl\<close> is a throw, with the state the
  lines before it have left. The stream is stored in \<open>activeStream\<close> before \<open>video\<close> is touched,
  and the first tick is requested before \<open>loadingMessage\<close> is.
\<close>

definition start_try :: "acquisition \<Rightarrow> elements \<Rightarrow> scanner \<Rightarrow> thrown \<times> scanner + scanner" where
  "start_try a el s =
     (case a of
        Denied m \<Rightarrow> Inl (AcquisitionError m, s)
      | Granted \<Rightarrow>
          (let i = length (streams s);
               s1 = s\<lparr>streams := streams s @ [True], activeStream := Some i\<rparr>
           in if \<not> video_set el then Inl (NullDeref, s1)
              else
                (let s2 = call RequestFrame (call (PlayVideo i) s1)
                 in if \<not> loadingMessage_set el then Inl (NullDeref, s2)
                    else
                      (let s3 = s2\<lparr>loadingMessage_innerText := Starting\<rparr>
                       in if \<not> container_found el then Inl (NullDeref, s3)
                          else Inr (print ScannerStarted (s3\<lparr>container_display := Block\<rparr>))))))"

text \<open>
  The \<open>catch\<close> block, with how the promise of \<open>start\<close> settles: it prints the error, then
  writes to \<open>outputMessage\<close> and to \<open>loadingMessage\<close>, and a null one of them throws out of the
  block, which rejects the promise with that \<open>TypeError\<close>. Nothing rethrows the error caught.
\<close>

definition start_catch :: "elements \<Rightarrow> thrown \<Rightarrow> scanner \<Rightarrow> settled \<times> scanner" where
  "start_catch el e s =
     (let s1 = print (StartFailed (message_of e)) s
      in if \<not> outputMessage_set el then (Rejected NullDeref, s1)
         else
           (let s2 = s1\<lparr>outputMessage_innerText := CameraError (message_of e)\<rparr>
            in if \<not> loadingMessage_set el then (Rejected NullDeref, s2)
               else (Fulfilled, s2\<lparr>loadingMessage_innerText := NoText\<rparr>)))"

text \<open>One whole \<open>start()\<close> with nothing else running in between, and the promise it returns.\<close>

definition start :: "acquisition \<Rightarrow> elements \<Rightarrow> scanner \<Rightarrow> settled \<times> scanner" where
  "start a el s =
     (let s1 = start_call s
      in case start_try a el s1 of
           Inl (e, s2) \<Rightarrow> start_catch el e s2
         | Inr s2 \<Rightarrow> (Fulfilled, s2))"

subsection \<open>fetchProductByBarcode\<close>

definition displayProduct :: "json \<Rightarrow> scanner \<Rightarrow> scanner" where
  "displayProduct product s =
     (if \<not> truthy product then s
      else
        (let s1 = (if has_productInfo s
                   then s\<lparr>productInfo_card := Some product, productInfo_display := Block\<rparr>
                   else s)
         in s1\<lparr>outputMessage_hidden := True\<rparr>))"

text \<open>Up to the \<open>await\<close> of \<open>fetch\<close>: the searching text and the request.\<close>

definition fetch_call :: "string \<Rightarrow> scanner \<Rightarrow> scanner" where
  "fetch_call barcode s =
     call (Fetch barcode) (s\<lparr>outputMessage_innerText := Searching, outputMessage_hidden := False\<rparr>)"

text \<open>The rest of the \<open>try\<close> block once \<open>fetch\<close> has settled: \<open>Inl\<close> is a throw.\<close>

definition fetch_try :: "response \<Rightarrow> scanner \<Rightarrow> unit + json \<times> scanner" where
  "fetch_try r s =
     (case r of
        NetworkError \<Rightarrow> Inl ()
      | Http status body \<Rightarrow>
          if \<not> response_ok status then Inl ()
          else (case body of
                  None \<Rightarrow> Inl ()
                | Some product \<Rightarrow>
                    (let s1 = displayProduct product s;
                         s2 = (if selectByCode (config s1) \<and> has_selectProduct s1
                               then call (SelectProduct product) s1 else s1)
                     in Inr (product, s2))))"

text \<open>The \<open>catch\<close> block: the not-found text, the data line hidden, the notification.\<close>

definition fetch_failed :: "string \<Rightarrow> scanner \<Rightarrow> scanner" where
  "fetch_failed barcode s =
     (let s1 = (print LookupError s)\<lparr>outputMessage_innerText := NotFound barcode,
                                     outputMessage_hidden := False,
                                     outputData_parent_hidden := True\<rparr>
      in if has_notify s1 then call (Notify barcode) s1 else s1)"

text \<open>The continuation as a whole, with the value the promise resolves to.\<close>

definition fetch_settled :: "string \<Rightarrow> response \<Rightarrow> scanner \<Rightarrow> json option \<times> scanner" where
  "fetch_settled barcode r s =
     (case fetch_try r s of
        Inr (product, s') \<Rightarrow> (Some product, s')
      | Inl _ \<Rightarrow> (None, fetch_failed barcode s))"

subsection \<open>processCode, decodeBarcode, tick\<close>

definition feedback :: "scanner \<Rightarrow> scanner" where
  "feedback s =
     (let s1 = (if beepOnSuccess (config s) then call Beep s else s)
      in if vibrateOnSuccess (config s1) \<and> nav_vibrate s1 then call (Vibrate 100) s1 else s1)"

definition processCode :: "int \<Rightarrow> string \<Rightarrow> scanner \<Rightarrow> scanner" where
  "processCode now code s =
     (if code \<noteq> lastResult s \<or> now - lastCodeFound s > codeValidTimeout (config s) then
        (let s1 = feedback (s\<lparr>lastResult := code, lastCodeFound := now\<rparr>);
             s2 = s1\<lparr>outputMessage_hidden := True, outputData_parent_hidden := False,
                      outputData_innerText := code\<rparr>
         in print (CodeFound code) (fetch_call code s2))
      else s)"

text \<open>The \<open>try\<close> body of \<open>decodeBarcode\<close> (\<open>Inl\<close> is a throw), and \<open>decodeBarcode\<close> with its
  \<open>catch\<close>, which prints the error and returns.\<close>

definition decode_try :: "decoded \<Rightarrow> int \<Rightarrow> scanner \<Rightarrow> unit + scanner" where
  "decode_try d now s =
     (case d of
        Failure \<Rightarrow> Inl ()
      | NoCode \<Rightarrow> Inr s
      | Code c \<Rightarrow> Inr (processCode now c s))"

definition decodeBarcode :: "decoded \<Rightarrow> int \<Rightarrow> scanner \<Rightarrow> unit + scanner" where
  "decodeBarcode d now s =
     (case decode_try d now s of
        Inl _ \<Rightarrow> Inr (print DecodeError s)
      | Inr s' \<Rightarrow> Inr s')"

definition idle :: "int \<Rightarrow> scanner \<Rightarrow> bool" where
  "idle now s = (scanTimeout (config s) > 0 \<and> now - lastCodeFound s > scanTimeout (config s))"

definition show_frame :: "scanner \<Rightarrow> scanner" where
  "show_frame s = s\<lparr>canvasElement_hidden := False, loadingMessage_hidden := True\<rparr>"

definition sample :: "frame \<Rightarrow> scanner \<Rightarrow> scanner" where
  "sample f s =
     (let s1 = show_frame s;
          s2 = (if countResults s1 mod 10 = 0
                then (case decodeBarcode (decode f) (clock_code f) s1 of
                        Inl _ \<Rightarrow> print TickDecodeError s1
                      | Inr s' \<Rightarrow> s')
                else s1)
      in s2\<lparr>countResults := countResults s2 + 1\<rparr>)"

definition clear_loading :: "scanner \<Rightarrow> scanner" where
  "clear_loading s = s\<lparr>loadingMessage_innerText := NoText\<rparr>"

definition tick :: "frame \<Rightarrow> scanner \<Rightarrow> scanner" where
  "tick f s =
     (if \<not> isScanning s then s
      else if idle (clock f) s then stop (print ScannerTimeout s)
      else
        (let s1 = clear_loading s;
             s2 = (if video_ready f then sample f s1 else s1)
         in call (SetTimeoutFrame (scanInterval (config s2))) s2))"

subsection \<open>init\<close>

text \<open>
  \<open>init\<close> with what it returns (\<open>Inl\<close> is a throw). \<open>canvas_found\<close>, \<open>others_found\<close> and
  \<open>camera_ok\<close> say whether the page has the canvas, whether it has the output and loading
  elements, and whether \<open>navigator.mediaDevices.getUserMedia\<close> exists. The context of the
  canvas is taken before the elements are checked, so a missing canvas throws. The
  \<open>start()\<close> that \<open>init\<close> calls is not awaited.
\<close>

definition init :: "options \<Rightarrow> bool \<Rightarrow> bool \<Rightarrow> bool \<Rightarrow> scanner \<Rightarrow> (unit + bool) \<times> scanner" where
  "init opts canvas_found others_found camera_ok s =
     (let s1 = (print Initialising s)\<lparr>config := assign (config s) opts\<rparr>
      in if \<not> canvas_found then (Inl (), s1)
         else if \<not> others_found then (Inr False, print ElementsMissing s1)
         else if camera_ok then (Inr True, if autostart (config s1) then start_call s1 else s1)
         else (Inr False, (print NoCameraSupport s1)\<lparr>outputMessage_innerText := Unsupported,
                                                      loadingMessage_innerText := NoText\<rparr>))"

subsection \<open>The module in its host\<close>

text \<open>
  Everything that can run module code: a call of \<open>start\<close> or \<open>stop\<close>, the host settling a
  pending \<open>getUserMedia\<close>, a scheduled \<open>tick\<close>, a call of \<open>fetchProductByBarcode\<close> and the host
  settling a pending \<open>fetch\<close>. JavaScript runs them one at a time, each to its next \<open>await\<close>.
  The events are those of a page that has been through \<open>init\<close> and has every element, where
  the two blocks of \<open>start\<close> are \<open>start_granted\<close> and \<open>start_denied\<close>.
\<close>

datatype event =
    StartCall
  | AcquireGranted
  | AcquireDenied string
  | StopCall
  | Tick frame
  | LookupCall string
  | LookupSettled string response

fun step :: "event \<Rightarrow> scanner \<Rightarrow> scanner" where
  "step StartCall s = start_call s"
| "step AcquireGranted s = start_granted s"
| "step (AcquireDenied m) s = start_denied m s"
| "step StopCall s = stop s"
| "step (Tick f) s = tick f s"
| "step (LookupCall c) s = fetch_call c s"
| "step (LookupSettled c r) s = snd (fetch_settled c r s)"

fun run :: "event list \<Rightarrow> scanner \<Rightarrow> scanner" where
  "run [] s = s"
| "run (e # es) s = run es (step e s)"

subsection \<open>Observing runs\<close>

text \<open>
  The accept branch of \<open>processCode\<close> is the only place that prints \<open>CodeFound\<close>, so the
  confirmed events between two states are the \<open>CodeFound\<close> lines the console gained.
  \<open>emissions\<close> feeds \<open>processCode\<close> a timed stream of candidates and keeps the ones that were
  confirmed.
\<close>

definition emitted :: "scanner \<Rightarrow> scanner \<Rightarrow> string list" where
  "emitted s s' = drop (length (confirmed (console s))) (confirmed (console s'))"

fun emissions :: "(int \<times> string) list \<Rightarrow> scanner \<Rightarrow> (int \<times> string) list" where
  "emissions [] s = []"
| "emissions ((t, v) # xs) s =
     (let s' = processCode t v s
      in (if emitted s s' = [] then [] else [(t, v)]) @ emissions xs s')"

text \<open>
  Concrete states and frames for the examples. \<open>page_load\<close> is the script just loaded, at
  time 0, on a host with every capability. \<open>scanning\<close> is the page after its
  \<open>DOMContentLoaded\<close> handler has run \<open>init\<close>, which autostarts, and the camera has been
  granted. \<open>ready\<close> is a page whose \<open>init\<close> was told not to autostart. \<open>frame_at t d\<close> is a
  ready frame at time \<open>t\<close>.
\<close>

definition page_load :: scanner where
  "page_load = module_state 0 True True True True"

definition page_options :: options where
  "page_options =
     \<lparr> opt_scanInterval = None, opt_scanTimeout = None, opt_autostart = Some True,
       opt_beepOnSuccess = Some True, opt_vibrateOnSuccess = Some True,
       opt_codeValidTimeout = None, opt_cameraFacingMode = None,
       opt_selectByCode = Some True \<rparr>"

definition manual_options :: options where
  "manual_options = page_options\<lparr>opt_autostart := Some False\<rparr>"

definition scanning :: scanner where
  "scanning = run [AcquireGranted] (snd (init page_options True True True page_load))"

definition ready :: scanner where
  "ready = snd (init manual_options True True True page_load)"

definition frame_at :: "int \<Rightarrow> decoded \<Rightarrow> frame" where
  "frame_at t d = \<lparr> clock = t, video_ready = True, decode = d, clock_code = t \<rparr>"

text \<open>The code "A" held in front of the camera: confirmed by the first tick, at time 100, and
  met again by the decode of the eleventh tick, which is the next one to decode.\<close>

definition held_code :: scanner where
  "held_code =
     run [Tick (frame_at 100 (Code ''A'')), Tick (frame_at 200 (Code ''A'')),
          Tick (frame_at 300 (Code ''A'')), Tick (frame_at 400 (Code ''A'')),
          Tick (frame_at 500 (Code ''A'')), Tick (frame_at 600 (Code ''A'')),
          Tick (frame_at 700 (Code ''A'')), Tick (frame_at 800 (Code ''A'')),
          Tick (frame_at 900 (Code ''A'')), Tick (frame_at 1000 (Code ''A''))] scanning"

text \<open>A page that autostarts, goes idle, and is started again by hand ten seconds after
  loading.\<close>

definition restarted :: scanner where
  "restarted =
     run [AcquireGranted, Tick (frame_at 5100 NoCode), StartCall, AcquireGranted]
       (snd (init page_options True True True page_load))"


section \<open>Properties\<close>

subsection \<open>Field by field\<close>

lemmas prims = call_def print_def

lemma confirmed_append: "confirmed (xs @ ys) = confirmed xs @ confirmed ys"
  by (induction xs rule: confirmed.induct) simp_all

lemma lookups_append: "lookups (xs @ ys) = lookups xs @ lookups ys"
  by (induction xs rule: lookups.induct) simp_all

lemma emitted_append: "console s' = console s @ ls \<Longrightarrow> emitted s s' = confirmed ls"
  by (simp add: emitted_def confirmed_append)

lemma feedback_calls:
  "calls (feedback s) =
     calls s @ (if beepOnSuccess (config s) then [Beep] else [])
             @ (if vibrateOnSuccess (config s) \<and> nav_vibrate s then [Vibrate 100] else [])"
  by (simp add: feedback_def Let_def prims)

lemma feedback_other:
  "lastResult (feedback s) = lastResult s" "lastCodeFound (feedback s) = lastCodeFound s"
  "console (feedback s) = console s" "isScanning (feedback s) = isScanning s"
  "config (feedback s) = config s" "streams (feedback s) = streams s"
  "activeStream (feedback s) = activeStream s" "countResults (feedback s) = countResults s"
  by (simp_all add: feedback_def Let_def prims)

lemma processCode_suppress:
  "\<not> (v \<noteq> lastResult s \<or> now - lastCodeFound s > codeValidTimeout (config s)) \<Longrightarrow>
   processCode now v s = s"
  by (simp add: processCode_def)

lemma processCode_fields:
  "isScanning (processCode now v s) = isScanning s"
  "config (processCode now v s) = config s"
  "streams (processCode now v s) = streams s"
  "activeStream (processCode now v s) = activeStream s"
  "countResults (processCode now v s) = countResults s"
  by (simp_all add: processCode_def Let_def fetch_call_def prims feedback_other)

lemma processCode_obs:
  "lastResult (processCode now v s) =
     (if v \<noteq> lastResult s \<or> now - lastCodeFound s > codeValidTimeout (config s)
      then v else lastResult s)"
  "lastCodeFound (processCode now v s) =
     (if v \<noteq> lastResult s \<or> now - lastCodeFound s > codeValidTimeout (config s)
      then now else lastCodeFound s)"
  "console (processCode now v s) =
     (if v \<noteq> lastResult s \<or> now - lastCodeFound s > codeValidTimeout (config s)
      then console s @ [CodeFound v] else console s)"
  "calls (processCode now v s) =
     (if v \<noteq> lastResult s \<or> now - lastCodeFound s > codeValidTimeout (config s)
      then calls s @ (if beepOnSuccess (config s) then [Beep] else [])
             @ (if vibrateOnSuccess (config s) \<and> nav_vibrate s then [Vibrate 100] else [])
             @ [Fetch v]
      else calls s)"
  by (simp_all add: processCode_def Let_def fetch_call_def prims feedback_other feedback_calls)

lemma processCode_emitted:
  "emitted s (processCode now v s) =
     (if v \<noteq> lastResult s \<or> now - lastCodeFound s > codeValidTimeout (config s)
      then [v] else [])"
  by (simp add: emitted_def processCode_obs confirmed_append)

lemma release_fields:
  "isScanning (release s) = isScanning s" "lastResult (release s) = lastResult s"
  "lastCodeFound (release s) = lastCodeFound s" "console (release s) = console s"
  "config (release s) = config s" "activeStream (release s) = None"
  "lookups (calls (release s)) = lookups (calls s)"
  by (simp_all add: release_def prims lookups_append split: option.split)

lemma stop_fields:
  "isScanning (stop s) = False" "lastResult (stop s) = lastResult s"
  "lastCodeFound (stop s) = lastCodeFound s" "console (stop s) = console s @ [ScannerStopped]"
  "config (stop s) = config s" "activeStream (stop s) = None"
  "lookups (calls (stop s)) = lookups (calls s)"
  by (simp_all add: stop_def prims release_fields)

lemma decodeBarcode_cases:
  "decodeBarcode NoCode now s = Inr s"
  "decodeBarcode Failure now s = Inr (print DecodeError s)"
  "decodeBarcode (Code v) now s = Inr (processCode now v s)"
  by (simp_all add: decodeBarcode_def decode_try_def)

lemma decodeBarcode_returns: "\<exists>s'. decodeBarcode d now s = Inr s'"
  by (cases d) (simp_all add: decodeBarcode_cases)

lemma shown_fields:
  "isScanning (show_frame (clear_loading s)) = isScanning s"
  "lastResult (show_frame (clear_loading s)) = lastResult s"
  "lastCodeFound (show_frame (clear_loading s)) = lastCodeFound s"
  "console (show_frame (clear_loading s)) = console s"
  "config (show_frame (clear_loading s)) = config s"
  "activeStream (show_frame (clear_loading s)) = activeStream s"
  "calls (show_frame (clear_loading s)) = calls s"
  "streams (show_frame (clear_loading s)) = streams s"
  "countResults (show_frame (clear_loading s)) = countResults s"
  "nav_vibrate (show_frame (clear_loading s)) = nav_vibrate s"
  by (simp_all add: show_frame_def clear_loading_def)

subsection \<open>tick, branch by branch\<close>

lemma tick_stopped: "\<not> isScanning s \<Longrightarrow> tick f s = s"
  by (simp add: tick_def)

lemma tick_idle:
  "isScanning s \<Longrightarrow> idle (clock f) s \<Longrightarrow> tick f s = stop (print ScannerTimeout s)"
  by (simp add: tick_def)

lemma tick_not_ready:
  "isScanning s \<Longrightarrow> \<not> idle (clock f) s \<Longrightarrow> \<not> video_ready f \<Longrightarrow>
   tick f s = call (SetTimeoutFrame (scanInterval (config s))) (clear_loading s)"
  by (simp add: tick_def Let_def clear_loading_def)

lemma tick_skip:
  "isScanning s \<Longrightarrow> \<not> idle (clock f) s \<Longrightarrow> video_ready f \<Longrightarrow>
   countResults s mod 10 \<noteq> 0 \<Longrightarrow>
   tick f s = call (SetTimeoutFrame (scanInterval (config s)))
     ((show_frame (clear_loading s))\<lparr>countResults := countResults s + 1\<rparr>)"
  by (simp add: tick_def Let_def sample_def shown_fields)

lemma tick_decode:
  "isScanning s \<Longrightarrow> \<not> idle (clock f) s \<Longrightarrow> video_ready f \<Longrightarrow>
   countResults s mod 10 = 0 \<Longrightarrow>
   tick f s = call (SetTimeoutFrame (scanInterval (config s)))
     ((case decode f of
         NoCode \<Rightarrow> show_frame (clear_loading s)
       | Failure \<Rightarrow> print DecodeError (show_frame (clear_loading s))
       | Code v \<Rightarrow> processCode (clock_code f) v (show_frame (clear_loading s)))
      \<lparr>countResults := countResults s + 1\<rparr>)"
  by (cases "decode f")
     (simp_all add: tick_def Let_def sample_def decodeBarcode_cases shown_fields
        processCode_fields prims)

subsection \<open>Evaluating the examples\<close>

lemmas eval_defs = page_load_def scanning_def ready_def frame_at_def module_state_def
  default_config_def init_def page_options_def manual_options_def assign_def or_else_def
  on_page_def before_init_def start_def start_try_def start_catch_def start_call_def start_granted_def start_denied_def stop_def release_def
  tick_def idle_def sample_def show_frame_def clear_loading_def decodeBarcode_def decode_try_def
  processCode_def feedback_def fetch_call_def call_def print_def Let_def emitted_def
  isActive_def getLastCode_def live_streams_def

subsection \<open>The debounce filter\<close>

lemma tick_candidate_obs:
  assumes "isScanning s"
    and "\<not> (scanTimeout (config s) > 0 \<and> clock f - lastCodeFound s > scanTimeout (config s))"
    and "video_ready f" and "countResults s mod 10 = 0" and "decode f = Code v"
  shows "lastResult (tick f s) = lastResult (processCode (clock_code f) v (show_frame (clear_loading s)))"
    "lastCodeFound (tick f s) = lastCodeFound (processCode (clock_code f) v (show_frame (clear_loading s)))"
    "console (tick f s) = console (processCode (clock_code f) v (show_frame (clear_loading s)))"
    "lookups (calls (tick f s)) = lookups (calls (processCode (clock_code f) v (show_frame (clear_loading s))))"
  using assms by (simp_all add: tick_decode idle_def prims lookups_append)

lemma tick_debounce:
  assumes "isScanning s"
    and "\<not> (scanTimeout (config s) > 0 \<and> clock f - lastCodeFound s > scanTimeout (config s))"
    and "video_ready f" and "countResults s mod 10 = 0" and "decode f = Code v"
  shows "(if v \<noteq> lastResult s \<or> clock_code f - lastCodeFound s > codeValidTimeout (config s)
          then lastResult (tick f s) = v \<and> lastCodeFound (tick f s) = clock_code f \<and>
               console (tick f s) = console s @ [CodeFound v] \<and>
               lookups (calls (tick f s)) = lookups (calls s) @ [v]
          else lastResult (tick f s) = lastResult s \<and> lastCodeFound (tick f s) = lastCodeFound s \<and>
               console (tick f s) = console s \<and>
               lookups (calls (tick f s)) = lookups (calls s))"
  by (simp add: tick_candidate_obs[OF assms] processCode_obs shown_fields lookups_append)

lemma debounce_scenario:
  "codeValidTimeout (config s) = 2000 \<Longrightarrow> lastResult s = [] \<Longrightarrow>
     emissions [(0, ''A''), (100, ''A''), (2100, ''A'')] s = [(0, ''A''), (2100, ''A'')]"
  by (simp add: Let_def processCode_obs processCode_fields processCode_emitted)

text \<open>
  C1. A candidate \<open>v\<close> met at time \<open>now\<close> is accepted exactly when \<open>v\<close> differs from
  \<open>lastResult\<close> or more than \<open>codeValidTimeout\<close> has passed since \<open>lastCodeFound\<close>. When it is
  accepted, \<open>lastResult\<close> becomes \<open>v\<close>, \<open>lastCodeFound\<close> becomes \<open>now\<close>, one confirmed event
  is emitted and one lookup is dispatched after the configured feedback; when it is
  suppressed nothing changes at all. The same holds of a whole tick of the running scanner
  whose decode finds \<open>v\<close>. A value other than \<open>lastResult\<close> is accepted whatever the time,
  and the stream "A", "A", "A" at 0, 100 and 2100 with a suppression of 2000 is confirmed at
  0 and 2100 only.
\<close>

theorem debounce_accepts_iff:
  "(v \<noteq> lastResult s \<or> now - lastCodeFound s > codeValidTimeout (config s) \<longrightarrow>
      lastResult (processCode now v s) = v \<and>
      lastCodeFound (processCode now v s) = now \<and>
      emitted s (processCode now v s) = [v] \<and>
      lookups (calls (processCode now v s)) = lookups (calls s) @ [v] \<and>
      calls (processCode now v s) =
        calls s @ (if beepOnSuccess (config s) then [Beep] else [])
                @ (if vibrateOnSuccess (config s) \<and> nav_vibrate s then [Vibrate 100] else [])
                @ [Fetch v]) \<and>
   (\<not> (v \<noteq> lastResult s \<or> now - lastCodeFound s > codeValidTimeout (config s)) \<longrightarrow>
      processCode now v s = s) \<and>
   (isScanning s \<and>
    \<not> (scanTimeout (config s) > 0 \<and> clock f - lastCodeFound s > scanTimeout (config s)) \<and>
    video_ready f \<and> countResults s mod 10 = 0 \<and> decode f = Code v \<longrightarrow>
      (if v \<noteq> lastResult s \<or> clock_code f - lastCodeFound s > codeValidTimeout (config s)
       then lastResult (tick f s) = v \<and> lastCodeFound (tick f s) = clock_code f \<and>
            console (tick f s) = console s @ [CodeFound v] \<and>
            lookups (calls (tick f s)) = lookups (calls s) @ [v]
       else lastResult (tick f s) = lastResult s \<and> lastCodeFound (tick f s) = lastCodeFound s \<and>
            console (tick f s) = console s \<and>
            lookups (calls (tick f s)) = lookups (calls s))) \<and>
   (v \<noteq> lastResult s \<longrightarrow> emissions [(now, v)] s = [(now, v)]) \<and>
   (codeValidTimeout (config s) = 2000 \<and> lastResult s = [] \<longrightarrow>
      emissions [(0, ''A''), (100, ''A''), (2100, ''A'')] s = [(0, ''A''), (2100, ''A'')])"
proof (intro conjI impI)
  assume h: "isScanning s \<and>
    \<not> (scanTimeout (config s) > 0 \<and> clock f - lastCodeFound s > scanTimeout (config s)) \<and>
    video_ready f \<and> countResults s mod 10 = 0 \<and> decode f = Code v"
  show "if v \<noteq> lastResult s \<or> clock_code f - lastCodeFound s > codeValidTimeout (config s)
       then lastResult (tick f s) = v \<and> lastCodeFound (tick f s) = clock_code f \<and>
            console (tick f s) = console s @ [CodeFound v] \<and>
            lookups (calls (tick f s)) = lookups (calls s) @ [v]
       else lastResult (tick f s) = lastResult s \<and> lastCodeFound (tick f s) = lastCodeFound s \<and>
            console (tick f s) = console s \<and>
            lookups (calls (tick f s)) = lookups (calls s)"
    by (rule tick_debounce) (use h in simp_all)
next
  assume "codeValidTimeout (config s) = 2000 \<and> lastResult s = []"
  then show "emissions [(0, ''A''), (100, ''A''), (2100, ''A'')] s = [(0, ''A''), (2100, ''A'')]"
    using debounce_scenario[of s] by blast
qed (simp_all add: processCode_obs processCode_emitted processCode_suppress lookups_append Let_def)

theorem debounce_accepts_iff_witness:
  "isScanning scanning \<and>
   \<not> (scanTimeout (config scanning) > 0 \<and>
      clock (frame_at 100 (Code ''A'')) - lastCodeFound scanning > scanTimeout (config scanning)) \<and>
   video_ready (frame_at 100 (Code ''A'')) \<and> countResults scanning mod 10 = 0 \<and>
   decode (frame_at 100 (Code ''A'')) = Code ''A'' \<and> ''A'' \<noteq> lastResult scanning \<and>
   codeValidTimeout (config scanning) = 2000 \<and> lastResult scanning = [] \<and>
   emissions [(100, ''A'')] scanning = [(100, ''A'')] \<and>
   lastResult (tick (frame_at 100 (Code ''A'')) scanning) = ''A'' \<and>
   lastCodeFound (tick (frame_at 100 (Code ''A'')) scanning) = 100 \<and>
   emitted scanning (processCode 100 ''A'' scanning) = [''A''] \<and>
   \<not> (''A'' \<noteq> lastResult (processCode 100 ''A'' scanning) \<or>
      200 - lastCodeFound (processCode 100 ''A'' scanning)
        > codeValidTimeout (config (processCode 100 ''A'' scanning))) \<and>
   processCode 200 ''A'' (processCode 100 ''A'' scanning) = processCode 100 ''A'' scanning \<and>
   emissions [(0, ''A''), (100, ''A''), (2100, ''A'')] scanning = [(0, ''A''), (2100, ''A'')]"
  using debounce_accepts_iff[of "''A''" scanning 100 "frame_at 100 (Code ''A'')"]
    debounce_accepts_iff[of "''A''" "processCode 100 ''A'' scanning" 200 "frame_at 100 (Code ''A'')"]
  by (simp add: eval_defs)

subsection \<open>The activity timestamp and the idle watchdog\<close>

lemma tick_lastCodeFound:
  "lastCodeFound (tick f s) =
     (if isScanning s \<and> \<not> idle (clock f) s \<and> video_ready f \<and> countResults s mod 10 = 0 \<and>
         (\<exists>v. decode f = Code v \<and>
              (v \<noteq> lastResult s \<or> clock_code f - lastCodeFound s > codeValidTimeout (config s)))
      then clock_code f else lastCodeFound s)"
proof (cases "isScanning s")
  case False
  then show ?thesis by (simp add: tick_stopped)
next
  case run: True
  show ?thesis
  proof (cases "idle (clock f) s")
    case True
    with run show ?thesis by (simp add: tick_idle stop_fields prims)
  next
    case awake: False
    show ?thesis
    proof (cases "video_ready f \<and> countResults s mod 10 = 0")
      case False
      with run awake show ?thesis
        by (cases "video_ready f")
           (simp_all add: tick_not_ready tick_skip prims clear_loading_def show_frame_def)
    next
      case True
      with run awake show ?thesis
        by (cases "decode f")
           (simp_all add: tick_decode prims shown_fields processCode_obs)
    qed
  qed
qed

lemma tick_awake:
  assumes "isScanning s" "\<not> idle (clock f) s"
  shows "isScanning (tick f s)" "streams (tick f s) = streams s"
    "activeStream (tick f s) = activeStream s"
    "\<exists>cs. calls (tick f s) = calls s @ cs @ [SetTimeoutFrame (scanInterval (config s))]"
  using assms
  by (cases "video_ready f"; cases "countResults s mod 10 = 0"; cases "decode f";
      simp add: tick_not_ready tick_skip tick_decode prims shown_fields processCode_fields
        processCode_obs clear_loading_def show_frame_def)+

text \<open>
  C5 (as amended). The module keeps one timestamp, \<open>lastCodeFound\<close>, and a tick changes it
  only by accepting a candidate, to the time of the acceptance. A tick that suppresses its
  candidate leaves it as it was, and so does a tick that finds no code, does not decode, or
  has no frame ready.
\<close>

theorem activity_refreshed_by_accept_only:
  "lastCodeFound (tick f s) =
     (if isScanning s \<and>
         \<not> (scanTimeout (config s) > 0 \<and> clock f - lastCodeFound s > scanTimeout (config s)) \<and>
         video_ready f \<and> countResults s mod 10 = 0 \<and>
         (\<exists>v. decode f = Code v \<and>
              (v \<noteq> lastResult s \<or> clock_code f - lastCodeFound s > codeValidTimeout (config s)))
      then clock_code f else lastCodeFound s) \<and>
   (decode f = Code v \<and>
    \<not> (v \<noteq> lastResult s \<or> clock_code f - lastCodeFound s > codeValidTimeout (config s)) \<longrightarrow>
      lastCodeFound (tick f s) = lastCodeFound s) \<and>
   (decode f = NoCode \<or> decode f = Failure \<longrightarrow> lastCodeFound (tick f s) = lastCodeFound s)"
  using tick_lastCodeFound[of f s] by (auto simp add: idle_def)

theorem activity_refreshed_by_accept_only_witness:
  "decode (frame_at 1100 (Code ''A'')) = Code ''A'' \<and>
   \<not> (''A'' \<noteq> lastResult held_code \<or>
      clock_code (frame_at 1100 (Code ''A'')) - lastCodeFound held_code
        > codeValidTimeout (config held_code)) \<and>
   lastCodeFound (tick (frame_at 1100 (Code ''A'')) held_code) = lastCodeFound held_code \<and>
   decode (frame_at 200 NoCode) = NoCode \<and>
   lastCodeFound (tick (frame_at 200 NoCode) scanning) = lastCodeFound scanning"
  using activity_refreshed_by_accept_only[of "frame_at 1100 (Code ''A'')" held_code "''A''"]
    activity_refreshed_by_accept_only[of "frame_at 200 NoCode" scanning "''A''"]
  by (simp add: held_code_def eval_defs)

theorem suppressed_tick_counterexample:
  "isActive held_code \<and> countResults held_code mod 10 = 0 \<and> lastResult held_code = ''A'' \<and>
   lastCodeFound held_code = 100 \<and>
   emitted held_code (tick (frame_at 1100 (Code ''A'')) held_code) = [] \<and>
   isActive (tick (frame_at 1100 (Code ''A'')) held_code) \<and>
   lastCodeFound (tick (frame_at 1100 (Code ''A'')) held_code) = 100 \<and>
   lastCodeFound (tick (frame_at 1100 (Code ''A'')) held_code) \<noteq> 1100"
  by (simp add: held_code_def eval_defs)

text \<open>
  C6. A tick of the running scanner with \<open>scanTimeout > 0\<close> and more than \<open>scanTimeout\<close>
  since \<open>lastCodeFound\<close> does nothing but call \<open>stop()\<close>: the scanner is stopped, holds no
  stream and schedules no further tick. With \<open>scanTimeout = 0\<close> a tick of the running
  scanner never stops it: it stays running, keeps its stream and schedules the next tick.
\<close>

theorem idle_watchdog:
  "(isScanning s \<and> scanTimeout (config s) > 0 \<and>
    clock f - lastCodeFound s > scanTimeout (config s) \<longrightarrow>
      tick f s = stop (print ScannerTimeout s) \<and> \<not> isActive (tick f s) \<and>
      activeStream (tick f s) = None \<and>
      calls (tick f s) =
        calls s @ (case activeStream s of None \<Rightarrow> [] | Some i \<Rightarrow> [StopTracks i])) \<and>
   (isScanning s \<and> scanTimeout (config s) = 0 \<longrightarrow>
      isActive (tick f s) \<and> activeStream (tick f s) = activeStream s \<and>
      streams (tick f s) = streams s \<and>
      (\<exists>cs. calls (tick f s) = calls s @ cs @ [SetTimeoutFrame (scanInterval (config s))]))"
proof (intro conjI impI)
  assume h: "isScanning s \<and> scanTimeout (config s) > 0 \<and>
    clock f - lastCodeFound s > scanTimeout (config s)"
  then show t: "tick f s = stop (print ScannerTimeout s)"
    by (simp add: tick_idle idle_def)
  show "\<not> isActive (tick f s)" "activeStream (tick f s) = None"
    by (simp_all add: t isActive_def stop_fields)
  show "calls (tick f s) =
        calls s @ (case activeStream s of None \<Rightarrow> [] | Some i \<Rightarrow> [StopTracks i])"
    by (simp add: t stop_def prims release_def split: option.split)
next
  assume h: "isScanning s \<and> scanTimeout (config s) = 0"
  then have a: "isScanning s" "\<not> idle (clock f) s"
    by (simp_all add: idle_def)
  show "isActive (tick f s)" "activeStream (tick f s) = activeStream s"
    "streams (tick f s) = streams s"
    "\<exists>cs. calls (tick f s) = calls s @ cs @ [SetTimeoutFrame (scanInterval (config s))]"
    using tick_awake[OF a] by (simp_all add: isActive_def)
qed

theorem idle_watchdog_witness:
  "isScanning scanning \<and> scanTimeout (config scanning) > 0 \<and>
   clock (frame_at 5001 (Code ''A'')) - lastCodeFound scanning > scanTimeout (config scanning) \<and>
   \<not> isActive (tick (frame_at 5001 (Code ''A'')) scanning) \<and>
   calls (tick (frame_at 5001 (Code ''A'')) scanning) = calls scanning @ [StopTracks 0] \<and>
   scanTimeout (config (scanning\<lparr>config := default_config\<lparr>scanTimeout := 0\<rparr>\<rparr>)) = 0 \<and>
   isActive (tick (frame_at 5001 NoCode) (scanning\<lparr>config := default_config\<lparr>scanTimeout := 0\<rparr>\<rparr>)) \<and>
   activeStream (tick (frame_at 5001 NoCode) (scanning\<lparr>config := default_config\<lparr>scanTimeout := 0\<rparr>\<rparr>))
     = Some 0"
  using idle_watchdog[of scanning "frame_at 5001 (Code ''A'')"]
    idle_watchdog[of "scanning\<lparr>config := default_config\<lparr>scanTimeout := 0\<rparr>\<rparr>" "frame_at 5001 NoCode"]
  by (simp add: eval_defs)

subsection \<open>start, path by path\<close>

lemma start_call_fields:
  "streams (start_call s) = streams s" "activeStream (start_call s) = activeStream s"
  "lastCodeFound (start_call s) = lastCodeFound s" "isScanning (start_call s)"
  "lastResult (start_call s) = []"
  "calls (start_call s) = calls s @ [GetUserMedia (cameraFacingMode (config s))]"
  "console (start_call s) = console s" "config (start_call s) = config s"
  "outputMessage_hidden (start_call s) = outputMessage_hidden s"
  by (simp_all add: start_call_def prims)

lemma start_kept:
  "lastResult (snd (start a el s)) = []"
  "lastCodeFound (snd (start a el s)) = lastCodeFound s"
  "isScanning (snd (start a el s))"
  by (cases a; simp add: start_def start_try_def start_catch_def start_call_def Let_def prims)+

lemmas start_lastResult = start_kept(1)

lemma start_Granted: "start Granted on_page s = (Fulfilled, start_granted (start_call s))"
  by (simp add: start_def start_try_def start_granted_def on_page_def Let_def prims)

lemma start_Denied:
  "start (Denied m) on_page s = (Fulfilled, start_denied m (start_call s))"
  by (simp add: start_def start_try_def start_catch_def start_denied_def on_page_def Let_def prims)

subsection \<open>Runs of the module\<close>

lemma tick_console:
  "\<exists>ls. console (tick f s) = console s @ ls \<and>
        (confirmed ls = [] \<and> lastResult (tick f s) = lastResult s \<or>
         confirmed ls = [lastResult (tick f s)])"
proof (cases "isScanning s")
  case False
  then show ?thesis by (simp add: tick_stopped)
next
  case run: True
  show ?thesis
  proof (cases "idle (clock f) s")
    case True
    with run show ?thesis by (simp add: tick_idle stop_fields prims)
  next
    case awake: False
    show ?thesis
    proof (cases "video_ready f \<and> countResults s mod 10 = 0")
      case False
      with run awake show ?thesis
        by (cases "video_ready f")
           (simp_all add: tick_not_ready tick_skip prims clear_loading_def show_frame_def)
    next
      case True
      with run awake show ?thesis
        by (cases "decode f")
           (simp_all add: tick_decode prims shown_fields processCode_obs)
    qed
  qed
qed

lemma fetch_settled_fields:
  "isScanning (snd (fetch_settled c r s)) = isScanning s"
  "lastResult (snd (fetch_settled c r s)) = lastResult s"
  "confirmed (console (snd (fetch_settled c r s))) = confirmed (console s)"
  "\<exists>ls. console (snd (fetch_settled c r s)) = console s @ ls \<and> confirmed ls = []"
  by (auto simp add: fetch_settled_def fetch_try_def fetch_failed_def displayProduct_def Let_def
      prims confirmed_append split: response.split option.split)

lemma step_console:
  "\<exists>ls. console (step e s) = console s @ ls \<and>
        (confirmed ls = [] \<and> (e \<noteq> StartCall \<longrightarrow> lastResult (step e s) = lastResult s) \<or>
         confirmed ls = [lastResult (step e s)])"
proof (cases e)
  case (Tick f)
  with tick_console[of f s] show ?thesis by auto
next
  case (LookupSettled c r)
  with fetch_settled_fields(2,4)[of c r s] show ?thesis by auto
qed (simp_all add: start_call_def start_granted_def start_denied_def stop_fields fetch_call_def
       prims Let_def)

lemma run_console:
  "\<exists>ls. console (run es s) = console s @ ls \<and>
        (StartCall \<notin> set es \<longrightarrow>
           lastResult (run es s) = (if confirmed ls = [] then lastResult s else last (confirmed ls)))"
proof (induction es arbitrary: s)
  case Nil
  show ?case by simp
next
  case (Cons e es)
  obtain l1 where l1: "console (step e s) = console s @ l1"
    and c1: "confirmed l1 = [] \<and> (e \<noteq> StartCall \<longrightarrow> lastResult (step e s) = lastResult s) \<or>
         confirmed l1 = [lastResult (step e s)]"
    using step_console[of e s] by blast
  obtain l2 where l2: "console (run es (step e s)) = console (step e s) @ l2"
    and c2: "StartCall \<notin> set es \<longrightarrow>
           lastResult (run es (step e s)) =
             (if confirmed l2 = [] then lastResult (step e s) else last (confirmed l2))"
    using Cons.IH[of "step e s"] by blast
  have "console (run (e # es) s) = console s @ (l1 @ l2)"
    using l1 l2 by simp
  moreover have "StartCall \<notin> set (e # es) \<longrightarrow>
      lastResult (run (e # es) s) =
        (if confirmed (l1 @ l2) = [] then lastResult s else last (confirmed (l1 @ l2)))"
    using c1 c2 by (auto simp add: confirmed_append)
  ultimately show ?case by blast
qed

lemma run_lastResult:
  assumes "StartCall \<notin> set es"
  shows "lastResult (run es s) =
     (if emitted s (run es s) = [] then lastResult s else last (emitted s (run es s)))"
proof -
  obtain ls where "console (run es s) = console s @ ls"
    and "lastResult (run es s) = (if confirmed ls = [] then lastResult s else last (confirmed ls))"
    using run_console[of es s] assms by blast
  then show ?thesis by (simp add: emitted_append)
qed

lemma step_stopped:
  assumes "\<not> isScanning s" "e \<noteq> StartCall"
  shows "\<not> isScanning (step e s)" "confirmed (console (step e s)) = confirmed (console s)"
  using assms
  by (cases e; simp add: start_granted_def start_denied_def stop_fields fetch_call_def prims Let_def
      tick_stopped fetch_settled_fields confirmed_append)+

lemma run_stopped:
  "\<not> isScanning s \<Longrightarrow> StartCall \<notin> set es \<Longrightarrow>
   \<not> isScanning (run es s) \<and> confirmed (console (run es s)) = confirmed (console s)"
proof (induction es arbitrary: s)
  case Nil
  then show ?case by simp
next
  case (Cons e es)
  then have "\<not> isScanning (step e s)" "confirmed (console (step e s)) = confirmed (console s)"
    "StartCall \<notin> set es"
    using step_stopped[of s e] by auto
  with Cons.IH[of "step e s"] show ?case by simp
qed

lemma run_ticks_stopped: "\<not> isScanning s \<Longrightarrow> run (map Tick fs) s = s"
  by (induction fs) (simp_all add: tick_stopped)

subsection \<open>Stopping\<close>

text \<open>
  C7. \<open>stop()\<close> clears the running flag, and a tick that finds it cleared returns at once:
  the state after it is the state before it, with no decode, no decision, no call and no
  new tick scheduled. So any number of ticks after \<open>stop()\<close> change nothing, and whatever
  else runs after \<open>stop()\<close>, short of a new call of \<open>start()\<close>, the scanner stays stopped
  and confirms no code.
\<close>

theorem stop_is_terminal:
  "\<not> isActive (stop s) \<and>
   (\<not> isScanning s \<longrightarrow> tick f s = s) \<and>
   tick f (stop s) = stop s \<and>
   run (map Tick fs) (stop s) = stop s \<and>
   (StartCall \<notin> set es \<longrightarrow>
      \<not> isActive (run es (stop s)) \<and> emitted (stop s) (run es (stop s)) = [])"
proof (intro conjI impI)
  show "\<not> isActive (stop s)" by (simp add: isActive_def stop_fields)
  show "tick f (stop s) = stop s" by (simp add: tick_stopped stop_fields)
  show "run (map Tick fs) (stop s) = stop s" by (simp add: run_ticks_stopped stop_fields)
next
  assume "\<not> isScanning s"
  then show "tick f s = s" by (rule tick_stopped)
next
  assume a: "StartCall \<notin> set es"
  have "\<not> isScanning (stop s)" by (simp add: stop_fields)
  from run_stopped[OF this a]
  show "\<not> isActive (run es (stop s))" "emitted (stop s) (run es (stop s)) = []"
    by (simp_all add: isActive_def emitted_def)
qed

theorem stop_is_terminal_witness:
  "\<not> isScanning (stop scanning) \<and>
   tick (frame_at 100 (Code ''A'')) (stop scanning) = stop scanning \<and>
   StartCall \<notin> set [Tick (frame_at 100 (Code ''A'')), LookupSettled ''A'' NetworkError,
                    Tick (frame_at 200 (Code ''B''))] \<and>
   \<not> isActive (run [Tick (frame_at 100 (Code ''A'')), LookupSettled ''A'' NetworkError,
                    Tick (frame_at 200 (Code ''B''))] (stop scanning)) \<and>
   emitted (stop scanning)
     (run [Tick (frame_at 100 (Code ''A'')), LookupSettled ''A'' NetworkError,
           Tick (frame_at 200 (Code ''B''))] (stop scanning)) = []"
  using stop_is_terminal[of "stop scanning" "frame_at 100 (Code ''A'')" "[]"
      "[Tick (frame_at 100 (Code ''A'')), LookupSettled ''A'' NetworkError,
        Tick (frame_at 200 (Code ''B''))]"]
    stop_is_terminal[of scanning "frame_at 100 (Code ''A'')" "[]"
      "[Tick (frame_at 100 (Code ''A'')), LookupSettled ''A'' NetworkError,
        Tick (frame_at 200 (Code ''B''))]"]
  by (simp add: eval_defs)

subsection \<open>The public accessor\<close>

text \<open>
  C10. \<open>getLastCode()\<close> is the empty string when the module is loaded, after \<open>init\<close>, and
  again as soon as \<open>start()\<close> is called. From any state, as long as \<open>start()\<close> is not called again, it returns
  the last code confirmed since then, or what it returned before when none was: an accepted
  candidate makes it that candidate's value, and a suppressed one changes nothing.
\<close>

theorem getLastCode_latest_confirmed:
  "getLastCode (module_state t0 vib sel noti info) = [] \<and>
   getLastCode (snd (init opts cf ef ck (module_state t0 vib sel noti info))) = [] \<and>
   getLastCode (start_call s) = [] \<and>
   getLastCode (snd (start a el s)) = [] \<and>
   (StartCall \<notin> set es \<longrightarrow>
      getLastCode (run es s) =
        (if emitted s (run es s) = [] then getLastCode s else last (emitted s (run es s)))) \<and>
   (StartCall \<notin> set es \<and> emitted (start_call s) (run es (start_call s)) = [] \<longrightarrow>
      getLastCode (run es (start_call s)) = []) \<and>
   (v \<noteq> lastResult s \<or> now - lastCodeFound s > codeValidTimeout (config s) \<longrightarrow>
      getLastCode (processCode now v s) = v) \<and>
   (\<not> (v \<noteq> lastResult s \<or> now - lastCodeFound s > codeValidTimeout (config s)) \<longrightarrow>
      getLastCode (processCode now v s) = getLastCode s)"
proof (intro conjI impI)
  show "getLastCode (module_state t0 vib sel noti info) = []"
    by (simp add: getLastCode_def module_state_def)
  show "getLastCode (snd (init opts cf ef ck (module_state t0 vib sel noti info))) = []"
    by (simp add: getLastCode_def module_state_def init_def start_call_def prims Let_def)
  show c: "getLastCode (start_call s) = []"
    by (simp add: getLastCode_def start_call_def prims)
  show "getLastCode (snd (start a el s)) = []"
    by (simp add: getLastCode_def start_lastResult)
  assume "StartCall \<notin> set es \<and> emitted (start_call s) (run es (start_call s)) = []"
  then show "getLastCode (run es (start_call s)) = []"
    using run_lastResult[of es "start_call s"] c by (simp add: getLastCode_def)
next
  assume "StartCall \<notin> set es"
  then show "getLastCode (run es s) =
        (if emitted s (run es s) = [] then getLastCode s else last (emitted s (run es s)))"
    using run_lastResult[of es s] by (simp add: getLastCode_def)
next
  assume "v \<noteq> lastResult s \<or> now - lastCodeFound s > codeValidTimeout (config s)"
  then show "getLastCode (processCode now v s) = v"
    by (simp add: getLastCode_def processCode_obs)
next
  assume "\<not> (v \<noteq> lastResult s \<or> now - lastCodeFound s > codeValidTimeout (config s))"
  then show "getLastCode (processCode now v s) = getLastCode s"
    by (simp add: processCode_suppress)
qed

theorem getLastCode_latest_confirmed_witness:
  "getLastCode page_load = [] \<and>
   StartCall \<notin> set [Tick (frame_at 100 (Code ''A'')), Tick (frame_at 200 (Code ''A''))] \<and>
   emitted scanning
     (run [Tick (frame_at 100 (Code ''A'')), Tick (frame_at 200 (Code ''A''))] scanning) = [''A''] \<and>
   getLastCode (run [Tick (frame_at 100 (Code ''A'')), Tick (frame_at 200 (Code ''A''))] scanning)
     = ''A'' \<and>
   emitted (start_call (processCode 100 ''A'' scanning))
     (run [Tick (frame_at 300 NoCode)] (start_call (processCode 100 ''A'' scanning))) = [] \<and>
   getLastCode (run [Tick (frame_at 300 NoCode)] (start_call (processCode 100 ''A'' scanning))) = [] \<and>
   ''A'' \<noteq> lastResult scanning \<and>
   getLastCode (processCode 100 ''A'' scanning) = ''A'' \<and>
   \<not> (''A'' \<noteq> lastResult (processCode 100 ''A'' scanning) \<or>
      200 - lastCodeFound (processCode 100 ''A'' scanning)
        > codeValidTimeout (config (processCode 100 ''A'' scanning))) \<and>
   getLastCode (processCode 200 ''A'' (processCode 100 ''A'' scanning)) = ''A''"
  using
    getLastCode_latest_confirmed[where ?t0.0 = 0 and vib = True and sel = True and noti = True
      and info = True and opts = page_options and cf = True and ef = True and ck = True
      and s = scanning and a = Granted and el = on_page and v = "''A''" and now = 100
      and es = "[Tick (frame_at 100 (Code ''A'')), Tick (frame_at 200 (Code ''A''))]"]
    getLastCode_latest_confirmed[where ?t0.0 = 0 and vib = True and sel = True and noti = True
      and info = True and opts = page_options and cf = True and ef = True and ck = True
      and s = "processCode 100 ''A'' scanning" and a = Granted and el = on_page and v = "''A''"
      and now = 200 and es = "[Tick (frame_at 300 NoCode)]"]
  by (simp add: eval_defs)

subsection \<open>Decode failures\<close>

text \<open>
  C9. \<open>decodeBarcode\<close> returns normally whatever the decode of the frame does. When the
  decode fails, all it does is print the error: no field of the state but the console
  differs from the state after a frame with no code, and this holds of the whole tick too.
  A tick of the running scanner that is not idle stays running and schedules the next
  tick, also when its decode fails.
\<close>

theorem decode_failure_swallowed:
  "(\<exists>s'. decodeBarcode d now s = Inr s') \<and>
   decodeBarcode Failure now s = Inr (print DecodeError s) \<and>
   decodeBarcode NoCode now s = Inr s \<and>
   (tick (f\<lparr>decode := Failure\<rparr>) s)\<lparr>console := c\<rparr> = (tick (f\<lparr>decode := NoCode\<rparr>) s)\<lparr>console := c\<rparr> \<and>
   emitted s (tick (f\<lparr>decode := Failure\<rparr>) s) = [] \<and>
   (isScanning s \<and>
    \<not> (scanTimeout (config s) > 0 \<and> clock f - lastCodeFound s > scanTimeout (config s)) \<longrightarrow>
      isActive (tick (f\<lparr>decode := Failure\<rparr>) s) \<and>
      (\<exists>cs. calls (tick (f\<lparr>decode := Failure\<rparr>) s)
             = calls s @ cs @ [SetTimeoutFrame (scanInterval (config s))]))"
proof (intro conjI impI)
  show "\<exists>s'. decodeBarcode d now s = Inr s'" by (rule decodeBarcode_returns)
  show "decodeBarcode Failure now s = Inr (print DecodeError s)"
    "decodeBarcode NoCode now s = Inr s"
    by (simp_all add: decodeBarcode_cases)
  show "(tick (f\<lparr>decode := Failure\<rparr>) s)\<lparr>console := c\<rparr> = (tick (f\<lparr>decode := NoCode\<rparr>) s)\<lparr>console := c\<rparr>"
    by (simp add: tick_def sample_def Let_def decodeBarcode_cases prims stop_def)
  show "emitted s (tick (f\<lparr>decode := Failure\<rparr>) s) = []"
    by (simp add: tick_def sample_def Let_def decodeBarcode_cases prims stop_def emitted_def
        confirmed_append show_frame_def clear_loading_def release_def split: option.split)
next
  assume "isScanning s \<and>
    \<not> (scanTimeout (config s) > 0 \<and> clock f - lastCodeFound s > scanTimeout (config s))"
  then have a: "isScanning s" "\<not> idle (clock (f\<lparr>decode := Failure\<rparr>)) s"
    by (simp_all add: idle_def)
  show "isActive (tick (f\<lparr>decode := Failure\<rparr>) s)"
    "\<exists>cs. calls (tick (f\<lparr>decode := Failure\<rparr>) s)
             = calls s @ cs @ [SetTimeoutFrame (scanInterval (config s))]"
    using tick_awake[OF a] by (simp_all add: isActive_def)
qed

theorem decode_failure_swallowed_witness:
  "isScanning scanning \<and>
   \<not> (scanTimeout (config scanning) > 0 \<and>
      clock (frame_at 100 NoCode) - lastCodeFound scanning > scanTimeout (config scanning)) \<and>
   isActive (tick (frame_at 100 Failure) scanning) \<and>
   console (tick (frame_at 100 Failure) scanning) = console scanning @ [DecodeError] \<and>
   calls (tick (frame_at 100 Failure) scanning) = calls scanning @ [SetTimeoutFrame 100] \<and>
   (tick (frame_at 100 Failure) scanning)\<lparr>console := []\<rparr>
     = (tick (frame_at 100 NoCode) scanning)\<lparr>console := []\<rparr>"
  using decode_failure_swallowed[where d = Failure and now = 100 and s = scanning
      and f = "frame_at 100 NoCode" and c = "[]"]
  by (simp add: eval_defs)

subsection \<open>Starting\<close>



















text \<open>
  C4. \<open>start()\<close> sets \<open>isScanning\<close>, empties \<open>lastResult\<close> and, when granted, schedules the
  first tick, but it never assigns \<open>lastCodeFound\<close>. On a page that autostarted, went idle
  and is started again ten seconds after loading, the timestamp is still the load time and
  the first tick stops the scanner again.
\<close>

theorem start_keeps_lastCodeFound:
  "lastCodeFound (snd (start a el s)) = lastCodeFound s \<and>
   isActive (snd (start Granted el s)) \<and> getLastCode (snd (start Granted el s)) = [] \<and>
   calls (snd (start Granted on_page s))
     = calls s @ [GetUserMedia (cameraFacingMode (config s)), PlayVideo (length (streams s)),
                  RequestFrame] \<and>
   isActive restarted \<and> getLastCode restarted = [] \<and> lastCodeFound restarted = 0 \<and>
   live_streams restarted = [1] \<and>
   \<not> isActive (tick (frame_at 10016 NoCode) restarted) \<and>
   live_streams (tick (frame_at 10016 NoCode) restarted) = []"
proof (intro conjI)
  show "lastCodeFound (snd (start a el s)) = lastCodeFound s"
    by (rule start_kept(2))
  show "isActive (snd (start Granted el s))" "getLastCode (snd (start Granted el s)) = []"
    by (simp_all add: isActive_def getLastCode_def start_kept)
  show "calls (snd (start Granted on_page s))
     = calls s @ [GetUserMedia (cameraFacingMode (config s)), PlayVideo (length (streams s)),
                  RequestFrame]"
    by (simp add: start_Granted start_granted_def start_call_fields prims Let_def)
  show "isActive restarted" "getLastCode restarted = []" "lastCodeFound restarted = 0"
    "live_streams restarted = [1]"
    "\<not> isActive (tick (frame_at 10016 NoCode) restarted)"
    "live_streams (tick (frame_at 10016 NoCode) restarted) = []"
    by (simp_all add: restarted_def eval_defs)
qed

subsection \<open>Lookup failures\<close>

text \<open>
  C8. When the lookup for a code \<open>c\<close> does not succeed (\<open>fetch\<close> rejects, the status is not
  a success status, or the body cannot be parsed), the module shows the not-found text for
  \<open>c\<close>, hides the data line and notifies the application if it can. It does not touch the
  running flag or the stream, and it issues no further request.
\<close>

theorem lookup_failure_shown:
  assumes "r = NetworkError \<or> (\<exists>status body. r = Http status body \<and> (\<not> response_ok status \<or> body = None))"
  shows "fst (fetch_settled c r s) = None \<and>
   outputMessage_innerText (snd (fetch_settled c r s)) = NotFound c \<and>
   outputMessage_hidden (snd (fetch_settled c r s)) = False \<and>
   outputData_parent_hidden (snd (fetch_settled c r s)) = True \<and>
   isActive (snd (fetch_settled c r s)) = isActive s \<and>
   activeStream (snd (fetch_settled c r s)) = activeStream s \<and>
   streams (snd (fetch_settled c r s)) = streams s \<and>
   calls (snd (fetch_settled c r s)) = calls s @ (if has_notify s then [Notify c] else []) \<and>
   lookups (calls (snd (fetch_settled c r s))) = lookups (calls s) \<and>
   step (LookupSettled c r) s = snd (fetch_settled c r s)"
proof -
  have "fetch_try r s = Inl ()"
    using assms by (auto simp add: fetch_try_def)
  then have "fetch_settled c r s = (None, fetch_failed c s)"
    by (simp add: fetch_settled_def)
  then show ?thesis
    by (simp add: fetch_failed_def Let_def prims isActive_def lookups_append)
qed

theorem lookup_failure_shown_witness:
  "isActive (processCode 100 ''123'' scanning) \<and>
   lookups (calls (processCode 100 ''123'' scanning)) = [''123''] \<and>
   \<not> response_ok 404 \<and>
   outputMessage_innerText (snd (fetch_settled ''123'' (Http 404 (Some JNull))
      (processCode 100 ''123'' scanning))) = NotFound ''123'' \<and>
   isActive (snd (fetch_settled ''123'' (Http 404 (Some JNull)) (processCode 100 ''123'' scanning))) \<and>
   lookups (calls (snd (fetch_settled ''123'' (Http 404 (Some JNull))
      (processCode 100 ''123'' scanning)))) = [''123'']"
  using lookup_failure_shown[of "Http 404 (Some JNull)" "''123''" "processCode 100 ''123'' scanning"]
  by (simp add: eval_defs response_ok_def)

end
